theory Spec2Isabelle
  imports Complex_Main "HOL-Library.Word" "HOL-Library.Log_Nat"
begin

section \<open>Mamacare: the profile synchronisation core of \<open>app/page.tsx\<close>\<close>

text \<open>
  The development embeds the \<open>Home\<close> component of \<open>src/app/page.tsx\<close> (the first
  document of that file, lines 1 to 866) together with the module \<open>src/lib/firebase.ts\<close>
  it imports. The React state cells (\<open>useState\<close>) become the fields of one record, the
  event handlers become functions from state to state, and every \<open>await\<close> becomes a
  request that is put in flight and settled by a separate step.

  The second document of \<open>page.tsx\<close> (lines 867 to 1617) is an older copy of the same
  component. Its handlers \<open>updateWeek\<close>, \<open>handleSymptomSubmit\<close>, \<open>handleReminderChange\<close>,
  \<open>persistProfile\<close> and \<open>loadProfile\<close> read the same, except that it has no
  \<open>reflections\<close> field, no \<open>loading\<close> cell and \<open>defaultProfile.pregnancyWeek = 12\<close>.
\<close>

subsection \<open>Strings\<close>

text \<open>
  A JavaScript string is a sequence of UTF-16 code units. \<open>str\<close> writes an ASCII literal.
\<close>

type_synonym js_string = "16 word list"

definition str :: "string \<Rightarrow> js_string" where
  "str s = map (\<lambda>c. of_nat (of_char c)) s"

text \<open>
  \<open>String.prototype.trim\<close> removes white space and line terminators from both ends
  (ECMAScript: TAB, VT, FF, SP, NBSP, ZWNBSP, the category Zs, LF, CR, LS, PS).
\<close>

definition isWhiteSpace :: "16 word \<Rightarrow> bool" where
  "isWhiteSpace c =
     (c \<in> {0x0009, 0x000A, 0x000B, 0x000C, 0x000D, 0x0020, 0x00A0, 0x1680,
            0x2028, 0x2029, 0x202F, 0x205F, 0x3000, 0xFEFF}
      \<or> (0x2000 \<le> c \<and> c \<le> 0x200A))"

definition trim :: "js_string \<Rightarrow> js_string" where
  "trim s = rev (dropWhile isWhiteSpace (rev (dropWhile isWhiteSpace s)))"

subsection \<open>Data model (lines 23 to 55)\<close>

datatype SymptomSeverity = mild | moderate | strong

record SymptomEntry =
  sid :: js_string
  symptom :: js_string
  severity :: SymptomSeverity
  snotes :: js_string
  loggedAt :: js_string

record ReflectionEntry =
  rid :: js_string
  rtext :: js_string
  timestamp :: js_string

text \<open>
  \<open>pregnancyWeek\<close> is a JavaScript number; the model takes the integers.
  \<open>ReminderFrequency = 1 | 2 | 4\<close> is checked by the compiler only: the handler receives
  \<open>Number(value) as ReminderFrequency\<close>, so the field holds any integer at run time.
  \<open>reflections?\<close> is optional: \<open>None\<close> is \<open>undefined\<close>.
\<close>

record MamacareProfile =
  pregnancyWeek :: int
  symptoms :: "SymptomEntry list"
  reminderFrequencyWeeks :: int
  customNotes :: js_string
  reflections :: "ReflectionEntry list option"

definition defaultProfile :: MamacareProfile where
  "defaultProfile =
     \<lparr>pregnancyWeek = 4, symptoms = [], reminderFrequencyWeeks = 4,
      customNotes = [], reflections = Some []\<rparr>"

subsection \<open>Derived values (lines 148 to 156)\<close>

definition trimesterKey :: "MamacareProfile \<Rightarrow> js_string" where
  "trimesterKey p =
     (if pregnancyWeek p \<le> 13 then str ''first''
      else if pregnancyWeek p \<le> 27 then str ''second''
      else str ''third'')"

text \<open>
  JavaScript numbers are IEEE 754 binary64 values and every arithmetic operation rounds
  its exact result to the nearest such value, ties to the even significand. \<open>binary64\<close>
  is that rounding, on the rationals: \<open>expo x\<close> is the exponent \<open>e\<close> with
  \<open>2^e \<le> x < 2^(e+1)\<close>, and the significand keeps 53 bits. The exponent is not bounded
  here, so overflow to \<open>Infinity\<close> and gradual underflow are left out; the quotients
  and products below stay far from both for every week of magnitude below \<open>2^53\<close>,
  the integers a number holds exactly.
\<close>

definition rne :: "rat \<Rightarrow> int" where
  "rne x = (let f = \<lfloor>x\<rfloor>; r = x - of_int f in
     if r < 1/2 then f else if 1/2 < r then f + 1 else if even f then f else f + 1)"

definition expo :: "rat \<Rightarrow> int" where
  "expo x = (case quotient_of x of (a, b) \<Rightarrow>
     let e = bitlen a - bitlen b in if 2 powi e \<le> x then e else e - 1)"

definition binary64 :: "rat \<Rightarrow> rat" where
  "binary64 x = (if x = 0 then 0 else
     let e = expo \<bar>x\<bar> - 52 in sgn x * of_int (rne (\<bar>x\<bar> / 2 powi e)) * 2 powi e)"

text \<open>
  \<open>Math.round\<close> returns the nearest integer, the one closer to plus infinity when two
  are equally near.
\<close>

definition Math_round :: "rat \<Rightarrow> int" where
  "Math_round x = \<lfloor>x + 1/2\<rfloor>"

text \<open>
  Line 156: \<open>Math.min(100, Math.round((profile.pregnancyWeek / 40) * 100))\<close>, the
  division and the multiplication each rounded to binary64.
\<close>

definition pregnancyProgress :: "MamacareProfile \<Rightarrow> int" where
  "pregnancyProgress p =
     min 100 (Math_round (binary64 (binary64 (of_int (pregnancyWeek p) / 40) * 100)))"

text \<open>The same expression with exact arithmetic, for comparison only.\<close>

definition exactProgress :: "int \<Rightarrow> int" where
  "exactProgress w = min 100 (Math_round (of_int w / 40 * 100))"

subsection \<open>The remote document store\<close>

text \<open>
  A Firestore document of the collection \<open>mamacare_profiles\<close>, and equally the argument
  of a write: each field is present or not. For a document that has been read, \<open>None\<close>
  also stands for a field holding \<open>null\<close>, which \<open>??\<close> treats like a missing one.
  \<open>serverTimestamp()\<close> is a placeholder that the server replaces by its clock when it
  applies the write.
\<close>

datatype FieldValue = serverTimestamp | Timestamp nat

record document =
  doc_pregnancyWeek :: "int option"
  doc_symptoms :: "SymptomEntry list option"
  doc_reminderFrequencyWeeks :: "int option"
  doc_customNotes :: "js_string option"
  doc_reflections :: "ReflectionEntry list option"
  doc_uid :: "js_string option"
  doc_createdAt :: "FieldValue option"
  doc_updatedAt :: "FieldValue option"

definition no_fields :: document where
  "no_fields =
     \<lparr>doc_pregnancyWeek = None, doc_symptoms = None, doc_reminderFrequencyWeeks = None,
      doc_customNotes = None, doc_reflections = None, doc_uid = None,
      doc_createdAt = None, doc_updatedAt = None\<rparr>"

text \<open>The object spread \<open>{ ...p }\<close> of a profile.\<close>

definition spread :: "MamacareProfile \<Rightarrow> document" where
  "spread p =
     \<lparr>doc_pregnancyWeek = Some (pregnancyWeek p), doc_symptoms = Some (symptoms p),
      doc_reminderFrequencyWeeks = Some (reminderFrequencyWeeks p),
      doc_customNotes = Some (customNotes p), doc_reflections = reflections p,
      doc_uid = None, doc_createdAt = None, doc_updatedAt = None\<rparr>"

text \<open>
  The Firestore SDK (\<open>getDoc\<close>, \<open>setDoc\<close>) is an external library. Its contract is
  the one of sections 4.2 and 6 of the spec: \<open>set\<close> without \<open>merge\<close> creates the document
  from the given fields, \<open>set\<close> with \<open>merge\<close> overwrites the given fields and leaves the
  others untouched.
\<close>

fun stamp_value :: "nat \<Rightarrow> FieldValue \<Rightarrow> FieldValue" where
  "stamp_value t serverTimestamp = Timestamp t"
| "stamp_value t (Timestamp u) = Timestamp u"

definition stamp :: "nat \<Rightarrow> document \<Rightarrow> document" where
  "stamp t d = d\<lparr>doc_createdAt := map_option (stamp_value t) (doc_createdAt d),
                 doc_updatedAt := map_option (stamp_value t) (doc_updatedAt d)\<rparr>"

definition orElse :: "'a option \<Rightarrow> 'a option \<Rightarrow> 'a option" where
  "orElse new old = (case new of None \<Rightarrow> old | Some v \<Rightarrow> Some v)"

definition merge_fields :: "document \<Rightarrow> document \<Rightarrow> document" where
  "merge_fields old new =
     \<lparr>doc_pregnancyWeek = orElse (doc_pregnancyWeek new) (doc_pregnancyWeek old),
      doc_symptoms = orElse (doc_symptoms new) (doc_symptoms old),
      doc_reminderFrequencyWeeks =
        orElse (doc_reminderFrequencyWeeks new) (doc_reminderFrequencyWeeks old),
      doc_customNotes = orElse (doc_customNotes new) (doc_customNotes old),
      doc_reflections = orElse (doc_reflections new) (doc_reflections old),
      doc_uid = orElse (doc_uid new) (doc_uid old),
      doc_createdAt = orElse (doc_createdAt new) (doc_createdAt old),
      doc_updatedAt = orElse (doc_updatedAt new) (doc_updatedAt old)\<rparr>"

type_synonym firestore = "js_string \<rightharpoonup> document"

definition setDoc :: "js_string \<Rightarrow> document \<Rightarrow> nat \<Rightarrow> firestore \<Rightarrow> firestore" where
  "setDoc u d t fs = fs(u \<mapsto> stamp t d)"

definition setDoc_merge :: "js_string \<Rightarrow> document \<Rightarrow> nat \<Rightarrow> firestore \<Rightarrow> firestore" where
  "setDoc_merge u d t fs =
     fs(u \<mapsto> merge_fields (case fs u of None \<Rightarrow> no_fields | Some old \<Rightarrow> old) (stamp t d))"

subsection \<open>Component state\<close>

record SymptomDraft =
  draft_symptom :: js_string
  draft_severity :: SymptomSeverity
  draft_notes :: js_string

text \<open>
  A call of an async function that is suspended at an \<open>await\<close>:
  \<open>LoadGet\<close> is \<open>loadProfile\<close> at \<open>await getDoc(ref)\<close> (line 187),
  \<open>LoadInit\<close> is \<open>loadProfile\<close> at \<open>await setDoc(ref, {...})\<close> (line 198),
  \<open>Persist\<close> is \<open>persistProfile\<close> at \<open>await setDoc(ref, {...}, { merge: true })\<close>
  (line 211). Each carries the user id of its document reference and the fields it sends.
\<close>

datatype pending =
    LoadGet js_string
  | LoadInit js_string document
  | Persist js_string document

text \<open>
  The state cells of \<open>Home\<close> (lines 129 to 142; \<open>deviceSync\<close>, \<open>now\<close> and \<open>shareLink\<close>
  take no part in the profile and are left out), and the world around it:
  \<open>firebaseReady\<close> of \<open>lib/firebase.ts\<close> (\<open>auth\<close> and \<open>db\<close> are defined exactly when it is
  true, all three under \<open>hasAllKeys\<close>), the remote collection, and the calls in flight.
\<close>

record state =
  user :: "js_string option"
  loading :: bool
  profile :: MamacareProfile
  symptomDraft :: SymptomDraft
  statusMessage :: "js_string option"
  saving :: bool
  reflectionText :: js_string
  firebaseReady :: bool
  store :: firestore
  inflight :: "pending list"

definition initial :: "bool \<Rightarrow> state" where
  "initial ready =
     \<lparr>user = None, loading = True, profile = defaultProfile,
      symptomDraft = \<lparr>draft_symptom = str ''nausea'', draft_severity = mild, draft_notes = []\<rparr>,
      statusMessage = None, saving = False, reflectionText = [],
      firebaseReady = ready, store = Map.empty, inflight = []\<rparr>"

subsection \<open>Loading and persisting (lines 182 to 236)\<close>

text \<open>The operator \<open>??\<close>.\<close>

definition nullish :: "'a option \<Rightarrow> 'a \<Rightarrow> 'a" where
  "nullish x d = (case x of None \<Rightarrow> d | Some v \<Rightarrow> v)"

text \<open>Lines 190 to 196: the profile built from \<open>snapshot.data()\<close>.\<close>

definition fromSnapshot :: "document \<Rightarrow> MamacareProfile" where
  "fromSnapshot d =
     \<lparr>pregnancyWeek = nullish (doc_pregnancyWeek d) (pregnancyWeek defaultProfile),
      symptoms = nullish (doc_symptoms d) [],
      reminderFrequencyWeeks =
        nullish (doc_reminderFrequencyWeeks d) (reminderFrequencyWeeks defaultProfile),
      customNotes = nullish (doc_customNotes d) [],
      reflections = Some (nullish (doc_reflections d) [])\<rparr>"

text \<open>
  \<open>loadProfile\<close> up to its first \<open>await\<close>. The message ends in the character U+2026.
\<close>

definition loadProfile :: "js_string \<Rightarrow> state \<Rightarrow> state" where
  "loadProfile uid s =
     (if \<not> firebaseReady s then s
      else s\<lparr>statusMessage := Some (str ''Loading your Mamacare space'' @ [0x2026]),
             inflight := inflight s @ [LoadGet uid]\<rparr>)"

text \<open>
  \<open>persistProfile\<close> up to its \<open>await\<close>: \<open>if (!db || !user) return\<close>, then the merge
  write of \<open>{ ...updates, updatedAt: serverTimestamp() }\<close> is put in flight.
\<close>

definition persistProfile :: "document \<Rightarrow> state \<Rightarrow> state" where
  "persistProfile updates s =
     (if \<not> firebaseReady s then s
      else case user s of
        None \<Rightarrow> s
      | Some uid \<Rightarrow>
          s\<lparr>saving := True,
            statusMessage := Some (str ''Syncing to Firestore'' @ [0x2026]),
            inflight := inflight s @
              [Persist uid (updates\<lparr>doc_updatedAt := Some serverTimestamp\<rparr>)]\<rparr>)"

text \<open>
  What runs when an awaited call resolves at server time \<open>t\<close>: the rest of
  \<open>loadProfile\<close> after \<open>getDoc\<close> (lines 188 to 199, where a missing document leads to
  the second \<open>await\<close>), its rest after \<open>setDoc\<close> (line 200), and the rest of
  \<open>persistProfile\<close> (lines 212 and 213). A read sees, and a write changes, the
  collection at the moment the call resolves.
\<close>

fun settle :: "pending \<Rightarrow> nat \<Rightarrow> state \<Rightarrow> state" where
  "settle (LoadGet uid) t s =
     (case store s uid of
        Some d \<Rightarrow> s\<lparr>profile := fromSnapshot d, statusMessage := None\<rparr>
      | None \<Rightarrow>
          s\<lparr>inflight := inflight s @
              [LoadInit uid ((spread defaultProfile)
                 \<lparr>doc_uid := Some uid, doc_createdAt := Some serverTimestamp\<rparr>)]\<rparr>)"
| "settle (LoadInit uid d) t s =
     s\<lparr>store := setDoc uid d t (store s), statusMessage := None\<rparr>"
| "settle (Persist uid d) t s =
     s\<lparr>store := setDoc_merge uid d t (store s), saving := False,
       statusMessage := Some (str ''Saved'')\<rparr>"

text \<open>The call at position \<open>i\<close> of the calls in flight resolves.\<close>

definition resolve :: "nat \<Rightarrow> nat \<Rightarrow> state \<Rightarrow> state" where
  "resolve i t s =
     (if i < length (inflight s)
      then settle (inflight s ! i) t
             (s\<lparr>inflight := take i (inflight s) @ drop (Suc i) (inflight s)\<rparr>)
      else s)"

text \<open>
  The awaited promise rejects: the async function stops there. Neither \<open>loadProfile\<close>
  nor \<open>persistProfile\<close> catches, so nothing after the \<open>await\<close> runs.
\<close>

definition reject :: "nat \<Rightarrow> state \<Rightarrow> state" where
  "reject i s = s\<lparr>inflight := take i (inflight s) @ drop (Suc i) (inflight s)\<rparr>"

text \<open>The timer of line 214.\<close>

definition clearStatus :: "state \<Rightarrow> state" where
  "clearStatus s = s\<lparr>statusMessage := None\<rparr>"

text \<open>
  The effect of lines 219 to 236 when the component mounts, and the callback it
  registers with \<open>onAuthStateChanged\<close>; the callback exists only when Firebase is
  configured.
\<close>

definition mount :: "state \<Rightarrow> state" where
  "mount s = (if \<not> firebaseReady s then s\<lparr>loading := False\<rparr> else s)"

definition authStateChanged :: "js_string option \<Rightarrow> state \<Rightarrow> state" where
  "authStateChanged authUser s =
     (let s1 = s\<lparr>user := authUser, loading := False\<rparr> in
      case authUser of
        Some uid \<Rightarrow> loadProfile uid s1
      | None \<Rightarrow> s1\<lparr>profile := defaultProfile\<rparr>)"

subsection \<open>Mutation handlers (lines 265 to 306 and 675 to 679)\<close>

text \<open>
  \<open>makeId()\<close> and \<open>new Date().toISOString()\<close> read the environment; the value each
  returns is an argument of the handler that calls it. A handler reads \<open>profile\<close> from
  the render it was created in, which is the current state when events are handled one
  after the other.
\<close>

definition updateWeek :: "int \<Rightarrow> state \<Rightarrow> state" where
  "updateWeek week s =
     persistProfile (no_fields\<lparr>doc_pregnancyWeek := Some week\<rparr>)
       (s\<lparr>profile := (profile s)\<lparr>pregnancyWeek := week\<rparr>\<rparr>)"

text \<open>Lines 272 to 278; the empty string is falsy, so \<open>||\<close> replaces it.\<close>

definition newEntry :: "js_string \<Rightarrow> js_string \<Rightarrow> SymptomDraft \<Rightarrow> SymptomEntry" where
  "newEntry newId nowIso d =
     \<lparr>sid = newId, symptom = draft_symptom d, severity = draft_severity d,
      snotes = (if draft_notes d = [] then str ''No additional notes'' else draft_notes d),
      loggedAt = nowIso\<rparr>"

definition handleSymptomSubmit :: "js_string \<Rightarrow> js_string \<Rightarrow> state \<Rightarrow> state" where
  "handleSymptomSubmit newId nowIso s =
     (let updated = take 20 (newEntry newId nowIso (symptomDraft s) # symptoms (profile s)) in
      persistProfile (no_fields\<lparr>doc_symptoms := Some updated\<rparr>)
        (s\<lparr>profile := (profile s)\<lparr>symptoms := updated\<rparr>,
           symptomDraft := (symptomDraft s)\<lparr>draft_notes := []\<rparr>\<rparr>))"

definition handleReminderChange :: "int \<Rightarrow> state \<Rightarrow> state" where
  "handleReminderChange v s =
     persistProfile (no_fields\<lparr>doc_reminderFrequencyWeeks := Some v\<rparr>)
       (s\<lparr>profile := (profile s)\<lparr>reminderFrequencyWeeks := v\<rparr>\<rparr>)"

text \<open>The \<open>onChange\<close> handler of the notes input, lines 675 to 679.\<close>

definition handleNotesChange :: "js_string \<Rightarrow> state \<Rightarrow> state" where
  "handleNotesChange note s =
     persistProfile (no_fields\<lparr>doc_customNotes := Some note\<rparr>)
       (s\<lparr>profile := (profile s)\<lparr>customNotes := note\<rparr>\<rparr>)"

text \<open>
  Lines 290 to 306. The empty string is falsy; an array is truthy, so
  \<open>profile.reflections || []\<close> replaces \<open>undefined\<close> only.
\<close>

definition handleSaveReflection :: "js_string \<Rightarrow> js_string \<Rightarrow> state \<Rightarrow> state" where
  "handleSaveReflection newId nowIso s =
     (if trim (reflectionText s) = [] then s
      else
        let newReflection = \<lparr>rid = newId, rtext = reflectionText s, timestamp = nowIso\<rparr>;
            updatedReflections = nullish (reflections (profile s)) [] @ [newReflection]
        in persistProfile (no_fields\<lparr>doc_reflections := Some updatedReflections\<rparr>)
             (s\<lparr>profile := (profile s)\<lparr>reflections := Some updatedReflections\<rparr>,
                reflectionText := []\<rparr>))"

subsection \<open>The operations of the specification\<close>

text \<open>
  Section 4.3 of the spec names five mutation operations. Each is a handler above;
  \<open>addSymptomEntry\<close> and \<open>addReflection\<close> take their arguments from the form, so the
  operation is the form filled in (the \<open>onChange\<close> handlers of lines 582 to 616 and
  830) followed by the submit handler.
\<close>

datatype mutation =
    setPregnancyWeek int
  | addSymptomEntry js_string SymptomSeverity js_string js_string js_string
  | setReminderFrequency int
  | setCustomNotes js_string
  | addReflection js_string js_string js_string

fun mutate :: "mutation \<Rightarrow> state \<Rightarrow> state" where
  "mutate (setPregnancyWeek week) s = updateWeek week s"
| "mutate (addSymptomEntry kind sev note newId nowIso) s =
     handleSymptomSubmit newId nowIso
       (s\<lparr>symptomDraft := \<lparr>draft_symptom = kind, draft_severity = sev, draft_notes = note\<rparr>\<rparr>)"
| "mutate (setReminderFrequency weeks) s = handleReminderChange weeks s"
| "mutate (setCustomNotes note) s = handleNotesChange note s"
| "mutate (addReflection txt newId nowIso) s =
     handleSaveReflection newId nowIso (s\<lparr>reflectionText := txt\<rparr>)"

text \<open>
  The states of section 4.3, read off the component: a session is loading while a call
  of \<open>loadProfile\<close> is in flight, and saving while the \<open>saving\<close> cell is set.
\<close>

datatype phase = Unauthenticated | Loading | Synced | Saving

fun is_load :: "pending \<Rightarrow> bool" where
  "is_load (LoadGet uid) = True"
| "is_load (LoadInit uid d) = True"
| "is_load (Persist uid d) = False"

definition phase_of :: "state \<Rightarrow> phase" where
  "phase_of s =
     (if user s = None then Unauthenticated
      else if list_ex is_load (inflight s) then Loading
      else if saving s then Saving
      else Synced)"

text \<open>
  A sequence of \<open>addSymptomEntry\<close> operations, each with the kind, severity and note of
  the form and the values \<open>makeId()\<close> and the clock return at that call; \<open>entry_of\<close> is
  the entry a call builds.
\<close>

type_synonym symptom_call =
  "js_string \<times> SymptomSeverity \<times> js_string \<times> js_string \<times> js_string"

fun entry_of :: "symptom_call \<Rightarrow> SymptomEntry" where
  "entry_of (kind, sev, note, newId, nowIso) =
     newEntry newId nowIso \<lparr>draft_symptom = kind, draft_severity = sev, draft_notes = note\<rparr>"

fun addSymptomEntries :: "symptom_call list \<Rightarrow> state \<Rightarrow> state" where
  "addSymptomEntries [] s = s"
| "addSymptomEntries ((kind, sev, note, newId, nowIso) # cs) s =
     addSymptomEntries cs (mutate (addSymptomEntry kind sev note newId nowIso) s)"

section \<open>Properties\<close>

subsection \<open>Auxiliary facts\<close>

lemmas handler_defs = updateWeek_def handleSymptomSubmit_def handleReminderChange_def
  handleNotesChange_def handleSaveReflection_def

lemma persistProfile_signed_out: "user s = None \<Longrightarrow> persistProfile u s = s"
  by (simp add: persistProfile_def)

lemma persistProfile_signed_in:
  "firebaseReady s \<Longrightarrow> user s = Some uid \<Longrightarrow>
   persistProfile u s =
     s\<lparr>saving := True, statusMessage := Some (str ''Syncing to Firestore'' @ [0x2026]),
       inflight := inflight s @ [Persist uid (u\<lparr>doc_updatedAt := Some serverTimestamp\<rparr>)]\<rparr>"
  by (simp add: persistProfile_def)

lemma profile_persistProfile [simp]: "profile (persistProfile u s) = profile s"
  by (simp add: persistProfile_def split: option.splits)

text \<open>\<open>trim\<close> leaves nothing exactly when every code unit is white space.\<close>

lemma trim_empty_iff: "trim s = [] \<longleftrightarrow> list_all isWhiteSpace s"
proof
  assume "trim s = []"
  then have a: "\<forall>x\<in>set (dropWhile isWhiteSpace s). isWhiteSpace x"
    by (simp add: trim_def)
  have "dropWhile isWhiteSpace s = []"
  proof (rule ccontr)
    assume ne: "dropWhile isWhiteSpace s \<noteq> []"
    then have "\<not> isWhiteSpace (hd (dropWhile isWhiteSpace s))" by (rule hd_dropWhile)
    moreover have "hd (dropWhile isWhiteSpace s) \<in> set (dropWhile isWhiteSpace s)"
      using ne by (rule hd_in_set)
    ultimately show False using a by blast
  qed
  then show "list_all isWhiteSpace s"
    by (simp add: list_all_iff)
next
  assume "list_all isWhiteSpace s"
  then show "trim s = []"
    by (auto simp: trim_def list_all_iff dest: set_dropWhileD)
qed

lemma blank_examples: "list_all isWhiteSpace [] \<and> list_all isWhiteSpace (str ''   '')"
  by (simp add: str_def isWhiteSpace_def)

lemma not_blank_example: "\<not> list_all isWhiteSpace (str ''ok'')"
  by (simp add: str_def isWhiteSpace_def)

lemma str_keys_distinct: "distinct [str ''first'', str ''second'', str ''third'']"
  by (simp add: str_def)

subsection \<open>Trimester classification\<close>

text \<open>
  Claim C7. For every profile the trimester key is \<open>first\<close> when \<open>pregnancyWeek \<le> 13\<close>,
  \<open>second\<close> when \<open>13 < pregnancyWeek \<le> 27\<close> and \<open>third\<close> otherwise; week 12 gives
  \<open>first\<close>, week 20 \<open>second\<close> and week 30 \<open>third\<close>. The three keys are different
  strings, so the three cases do not collapse.
\<close>

theorem trimesterKey_classification:
  "(pregnancyWeek p \<le> 13 \<longrightarrow> trimesterKey p = str ''first'') \<and>
   (13 < pregnancyWeek p \<and> pregnancyWeek p \<le> 27 \<longrightarrow> trimesterKey p = str ''second'') \<and>
   (27 < pregnancyWeek p \<longrightarrow> trimesterKey p = str ''third'') \<and>
   trimesterKey (p\<lparr>pregnancyWeek := 12\<rparr>) = str ''first'' \<and>
   trimesterKey (p\<lparr>pregnancyWeek := 20\<rparr>) = str ''second'' \<and>
   trimesterKey (p\<lparr>pregnancyWeek := 30\<rparr>) = str ''third'' \<and>
   distinct [str ''first'', str ''second'', str ''third'']"
  using str_keys_distinct by (simp add: trimesterKey_def)

theorem trimesterKey_classification_witness:
  "pregnancyWeek (defaultProfile\<lparr>pregnancyWeek := 13\<rparr>) \<le> 13 \<and>
   trimesterKey (defaultProfile\<lparr>pregnancyWeek := 13\<rparr>) = str ''first'' \<and>
   13 < pregnancyWeek (defaultProfile\<lparr>pregnancyWeek := 14\<rparr>) \<and>
   pregnancyWeek (defaultProfile\<lparr>pregnancyWeek := 14\<rparr>) \<le> 27 \<and>
   trimesterKey (defaultProfile\<lparr>pregnancyWeek := 14\<rparr>) = str ''second'' \<and>
   27 < pregnancyWeek (defaultProfile\<lparr>pregnancyWeek := 28\<rparr>) \<and>
   trimesterKey (defaultProfile\<lparr>pregnancyWeek := 28\<rparr>) = str ''third''"
  using trimesterKey_classification [of "defaultProfile\<lparr>pregnancyWeek := 13\<rparr>"]
    trimesterKey_classification [of "defaultProfile\<lparr>pregnancyWeek := 14\<rparr>"]
    trimesterKey_classification [of "defaultProfile\<lparr>pregnancyWeek := 28\<rparr>"]
  by simp

subsection \<open>Sign-out\<close>

text \<open>
  Claim C9. When the session callback reports that the identity is absent, from any
  state the in-memory profile becomes \<open>defaultProfile\<close> and the user is cleared, while
  the remote collection and the calls in flight stay as they were: the reset issues no
  write.
\<close>

theorem sign_out_resets_profile:
  "profile (authStateChanged None s) = defaultProfile \<and>
   user (authStateChanged None s) = None \<and>
   phase_of (authStateChanged None s) = Unauthenticated \<and>
   store (authStateChanged None s) = store s \<and>
   inflight (authStateChanged None s) = inflight s"
  by (simp add: authStateChanged_def phase_of_def)

theorem sign_out_resets_profile_witness:
  "pregnancyWeek (profile (authStateChanged None
      ((initial True)\<lparr>user := Some (str ''u1''),
         profile := defaultProfile\<lparr>pregnancyWeek := 30\<rparr>\<rparr>))) = 4 \<and>
   inflight (authStateChanged None
      ((initial True)\<lparr>user := Some (str ''u1''),
         profile := defaultProfile\<lparr>pregnancyWeek := 30\<rparr>\<rparr>)) = []"
  using sign_out_resets_profile
    [of "(initial True)\<lparr>user := Some (str ''u1''),
           profile := defaultProfile\<lparr>pregnancyWeek := 30\<rparr>\<rparr>"]
  by (simp add: defaultProfile_def initial_def)

subsection \<open>Loading an existing document\<close>

text \<open>
  Claim C10. When the read of \<open>loadProfile\<close> finds a document, the profile it sets has
  every field: each of \<open>pregnancyWeek\<close>, \<open>symptoms\<close>, \<open>reminderFrequencyWeeks\<close>,
  \<open>customNotes\<close> and \<open>reflections\<close> that the document lacks takes its default (4, the
  empty list, 4, the empty string, the empty list), for every partial document. A
  document with no profile field gives \<open>defaultProfile\<close>.
\<close>

theorem load_existing_fills_defaults:
  "i < length (inflight s) \<Longrightarrow> inflight s ! i = LoadGet uid \<Longrightarrow> store s uid = Some d \<Longrightarrow>
   profile (resolve i t s) =
     \<lparr>pregnancyWeek = (case doc_pregnancyWeek d of None \<Rightarrow> 4 | Some w \<Rightarrow> w),
      symptoms = (case doc_symptoms d of None \<Rightarrow> [] | Some xs \<Rightarrow> xs),
      reminderFrequencyWeeks = (case doc_reminderFrequencyWeeks d of None \<Rightarrow> 4 | Some v \<Rightarrow> v),
      customNotes = (case doc_customNotes d of None \<Rightarrow> [] | Some n \<Rightarrow> n),
      reflections = Some (case doc_reflections d of None \<Rightarrow> [] | Some rs \<Rightarrow> rs)\<rparr> \<and>
   reflections (profile (resolve i t s)) \<noteq> None \<and>
   (d = no_fields \<longrightarrow> profile (resolve i t s) = defaultProfile)"
  by (simp add: resolve_def fromSnapshot_def nullish_def defaultProfile_def no_fields_def)

theorem load_existing_fills_defaults_witness:
  "0 < length (inflight (authStateChanged (Some (str ''u1''))
        ((initial True)\<lparr>store := [str ''u1'' \<mapsto> no_fields\<lparr>doc_pregnancyWeek := Some 20\<rparr>]\<rparr>))) \<and>
   inflight (authStateChanged (Some (str ''u1''))
        ((initial True)\<lparr>store := [str ''u1'' \<mapsto> no_fields\<lparr>doc_pregnancyWeek := Some 20\<rparr>]\<rparr>)) ! 0
     = LoadGet (str ''u1'') \<and>
   store (authStateChanged (Some (str ''u1''))
        ((initial True)\<lparr>store := [str ''u1'' \<mapsto> no_fields\<lparr>doc_pregnancyWeek := Some 20\<rparr>]\<rparr>))
     (str ''u1'') = Some (no_fields\<lparr>doc_pregnancyWeek := Some 20\<rparr>) \<and>
   profile (resolve 0 7 (authStateChanged (Some (str ''u1''))
        ((initial True)\<lparr>store := [str ''u1'' \<mapsto> no_fields\<lparr>doc_pregnancyWeek := Some 20\<rparr>]\<rparr>))) =
     \<lparr>pregnancyWeek = 20, symptoms = [], reminderFrequencyWeeks = 4, customNotes = [],
      reflections = Some []\<rparr>"
proof -
  let ?s = "authStateChanged (Some (str ''u1''))
        ((initial True)\<lparr>store := [str ''u1'' \<mapsto> no_fields\<lparr>doc_pregnancyWeek := Some 20\<rparr>]\<rparr>)"
  have h1: "0 < length (inflight ?s)"
    by (simp add: authStateChanged_def loadProfile_def initial_def)
  have h2: "inflight ?s ! 0 = LoadGet (str ''u1'')"
    by (simp add: authStateChanged_def loadProfile_def initial_def)
  have h3: "store ?s (str ''u1'') = Some (no_fields\<lparr>doc_pregnancyWeek := Some 20\<rparr>)"
    by (simp add: authStateChanged_def loadProfile_def initial_def)
  show ?thesis
    using h1 h2 h3 load_existing_fills_defaults [OF h1 h2 h3, of 7]
    by (simp add: no_fields_def)
qed

subsection \<open>The week is stored as given\<close>

text \<open>
  Claim C3, as stated: after \<open>updateWeek\<close> with any integer the profile's
  \<open>pregnancyWeek\<close> lies in the range from 4 to 40. It fails: \<open>updateWeek\<close> does not
  clamp, so week 50 is stored, and sent to the remote store, as 50.
\<close>

theorem updateWeek_out_of_range:
  "\<not> (4 \<le> pregnancyWeek (profile (updateWeek 50 ((initial True)\<lparr>user := Some (str ''u1'')\<rparr>))) \<and>
      pregnancyWeek (profile (updateWeek 50 ((initial True)\<lparr>user := Some (str ''u1'')\<rparr>))) \<le> 40) \<and>
   inflight (updateWeek 50 ((initial True)\<lparr>user := Some (str ''u1'')\<rparr>)) =
     [Persist (str ''u1'')
        (no_fields\<lparr>doc_pregnancyWeek := Some 50, doc_updatedAt := Some serverTimestamp\<rparr>)]"
  by (simp add: updateWeek_def persistProfile_def initial_def)

text \<open>
  Claim C3, amended. \<open>updateWeek\<close> stores the week it is given, so the profile's
  \<open>pregnancyWeek\<close> lies in the range from 4 to 40 afterwards whenever the input does
  (the range slider that calls it has \<open>min = 4\<close> and \<open>max = 40\<close>); every other mutation
  operation leaves \<open>pregnancyWeek\<close> as it was.
\<close>

theorem updateWeek_stores_input:
  "pregnancyWeek (profile (updateWeek week s)) = week \<and>
   (4 \<le> week \<and> week \<le> 40 \<longrightarrow>
      4 \<le> pregnancyWeek (profile (updateWeek week s)) \<and>
      pregnancyWeek (profile (updateWeek week s)) \<le> 40) \<and>
   ((\<forall>w. m \<noteq> setPregnancyWeek w) \<longrightarrow>
      pregnancyWeek (profile (mutate m s)) = pregnancyWeek (profile s))"
  by (cases m) (simp_all add: handler_defs Let_def)

theorem updateWeek_stores_input_witness:
  "(4::int) \<le> 20 \<and> (20::int) \<le> 40 \<and>
   pregnancyWeek (profile (updateWeek 20 (initial True))) = 20 \<and>
   4 \<le> pregnancyWeek (profile (updateWeek 20 (initial True))) \<and>
   pregnancyWeek (profile (updateWeek 20 (initial True))) \<le> 40 \<and>
   pregnancyWeek (profile (mutate (setReminderFrequency 2) (initial True))) = 4"
  using updateWeek_stores_input [of 20 "initial True" "setReminderFrequency 2"]
  by (simp add: initial_def defaultProfile_def)

subsection \<open>Mutations while signed out\<close>

text \<open>
  Claim C5, as stated: a mutation attempted while signed out leaves the profile
  unchanged. It fails: every handler updates the profile before \<open>persistProfile\<close>
  looks at \<open>user\<close>, so \<open>setPregnancyWeek 10\<close> on the signed-out initial state changes
  the profile.
\<close>

theorem signed_out_mutation_changes_profile:
  "user (initial True) = None \<and>
   pregnancyWeek (profile (initial True)) = 4 \<and>
   pregnancyWeek (profile (mutate (setPregnancyWeek 10) (initial True))) = 10 \<and>
   profile (mutate (setPregnancyWeek 10) (initial True)) \<noteq> profile (initial True)"
  by (simp add: updateWeek_def persistProfile_def initial_def defaultProfile_def)

text \<open>
  Claim C5, amended. A mutation made while signed out issues no remote write:
  the calls in flight, the remote collection, the \<open>saving\<close> cell and the status message
  are unchanged and the user stays absent. The in-memory profile takes the change all
  the same, exactly as it would with a user signed in.
\<close>

theorem signed_out_mutation_issues_no_write:
  "user s = None \<Longrightarrow>
   inflight (mutate m s) = inflight s \<and> store (mutate m s) = store s \<and>
   saving (mutate m s) = saving s \<and> statusMessage (mutate m s) = statusMessage s \<and>
   user (mutate m s) = None \<and>
   profile (mutate m s) = profile (mutate m (s\<lparr>user := Some uid\<rparr>))"
  by (cases m) (simp_all add: handler_defs Let_def persistProfile_signed_out)

theorem signed_out_mutation_issues_no_write_witness:
  "user (initial True) = None \<and>
   inflight (mutate (setReminderFrequency 2) (initial True)) = [] \<and>
   \<not> saving (mutate (setReminderFrequency 2) (initial True)) \<and>
   statusMessage (mutate (setReminderFrequency 2) (initial True)) = None \<and>
   reminderFrequencyWeeks (profile (mutate (setReminderFrequency 2) (initial True))) = 2"
proof -
  have h: "user (initial True) = None" by (simp add: initial_def)
  show ?thesis
    using h signed_out_mutation_issues_no_write
      [OF h, of "setReminderFrequency 2" "str ''u1''"]
    by (simp add: initial_def handleReminderChange_def)
qed

subsection \<open>Reflections\<close>

text \<open>
  Claim C4. \<open>addReflection\<close> with a text that is empty or consists of white space only
  (such as the empty string or three spaces) does nothing: the state after it is the
  state before it with that text in the text box, so no entry is added and no write is
  issued. With any other text it appends to the reflections one entry that carries the
  identifier \<open>makeId()\<close> returned, the text as typed, and the time stamp the clock
  returned.
\<close>

theorem addReflection_blank_is_noop:
  "(list_all isWhiteSpace txt \<longrightarrow>
      mutate (addReflection txt newId nowIso) s = s\<lparr>reflectionText := txt\<rparr>) \<and>
   (\<not> list_all isWhiteSpace txt \<longrightarrow>
      profile (mutate (addReflection txt newId nowIso) s) =
        (profile s)\<lparr>reflections :=
           Some ((case reflections (profile s) of None \<Rightarrow> [] | Some rs \<Rightarrow> rs) @
                 [\<lparr>rid = newId, rtext = txt, timestamp = nowIso\<rparr>])\<rparr>) \<and>
   profile (mutate (addReflection [] newId nowIso) s) = profile s \<and>
   inflight (mutate (addReflection [] newId nowIso) s) = inflight s \<and>
   store (mutate (addReflection [] newId nowIso) s) = store s \<and>
   profile (mutate (addReflection (str ''   '') newId nowIso) s) = profile s \<and>
   inflight (mutate (addReflection (str ''   '') newId nowIso) s) = inflight s \<and>
   store (mutate (addReflection (str ''   '') newId nowIso) s) = store s"
  using blank_examples
  by (simp add: handleSaveReflection_def trim_empty_iff Let_def nullish_def)

theorem addReflection_blank_is_noop_witness:
  "list_all isWhiteSpace (str ''   '') \<and>
   mutate (addReflection (str ''   '') (str ''id1'') (str ''t1'')) (initial True) =
     (initial True)\<lparr>reflectionText := str ''   ''\<rparr> \<and>
   \<not> list_all isWhiteSpace (str ''ok'') \<and>
   reflections (profile (mutate (addReflection (str ''ok'') (str ''id1'') (str ''t1''))
      (initial True))) =
     Some [\<lparr>rid = str ''id1'', rtext = str ''ok'', timestamp = str ''t1''\<rparr>]"
  using blank_examples not_blank_example
    addReflection_blank_is_noop [of "str ''   ''" "str ''id1''" "str ''t1''" "initial True"]
    addReflection_blank_is_noop [of "str ''ok''" "str ''id1''" "str ''t1''" "initial True"]
  by (simp add: initial_def defaultProfile_def)

subsection \<open>Optimistic update, then merge write\<close>

text \<open>
  Claim C2. With Firebase configured and a user signed in, each of the five mutation
  operations first changes the in-memory profile in its own field and in no other, and
  then puts one merge write in flight whose fields are the changed field and
  \<open>updatedAt\<close>, the server time stamp. When the handler returns the new value is
  in the profile, the \<open>saving\<close> cell is set and the remote collection is still as it
  was: the write has not resolved. (\<open>addReflection\<close> does so for a text that is not
  blank.)
\<close>

theorem mutation_applies_then_writes:
  assumes "firebaseReady s" and "user s = Some uid"
  shows
  "profile (mutate (setPregnancyWeek week) s) = (profile s)\<lparr>pregnancyWeek := week\<rparr> \<and>
   inflight (mutate (setPregnancyWeek week) s) = inflight s @
     [Persist uid (no_fields\<lparr>doc_pregnancyWeek := Some week,
                              doc_updatedAt := Some serverTimestamp\<rparr>)] \<and>
   profile (mutate (addSymptomEntry kind sev note newId nowIso) s) =
     (profile s)\<lparr>symptoms := take 20
        (\<lparr>sid = newId, symptom = kind, severity = sev,
          snotes = (if note = [] then str ''No additional notes'' else note),
          loggedAt = nowIso\<rparr> # symptoms (profile s))\<rparr> \<and>
   inflight (mutate (addSymptomEntry kind sev note newId nowIso) s) = inflight s @
     [Persist uid (no_fields\<lparr>doc_symptoms :=
        Some (symptoms (profile (mutate (addSymptomEntry kind sev note newId nowIso) s))),
        doc_updatedAt := Some serverTimestamp\<rparr>)] \<and>
   profile (mutate (setReminderFrequency weeks) s) =
     (profile s)\<lparr>reminderFrequencyWeeks := weeks\<rparr> \<and>
   inflight (mutate (setReminderFrequency weeks) s) = inflight s @
     [Persist uid (no_fields\<lparr>doc_reminderFrequencyWeeks := Some weeks,
                              doc_updatedAt := Some serverTimestamp\<rparr>)] \<and>
   profile (mutate (setCustomNotes txt) s) = (profile s)\<lparr>customNotes := txt\<rparr> \<and>
   inflight (mutate (setCustomNotes txt) s) = inflight s @
     [Persist uid (no_fields\<lparr>doc_customNotes := Some txt,
                              doc_updatedAt := Some serverTimestamp\<rparr>)] \<and>
   (\<not> list_all isWhiteSpace txt \<longrightarrow>
      profile (mutate (addReflection txt newId nowIso) s) =
        (profile s)\<lparr>reflections :=
           Some ((case reflections (profile s) of None \<Rightarrow> [] | Some rs \<Rightarrow> rs) @
                 [\<lparr>rid = newId, rtext = txt, timestamp = nowIso\<rparr>])\<rparr> \<and>
      inflight (mutate (addReflection txt newId nowIso) s) = inflight s @
        [Persist uid (no_fields\<lparr>doc_reflections :=
           reflections (profile (mutate (addReflection txt newId nowIso) s)),
           doc_updatedAt := Some serverTimestamp\<rparr>)]) \<and>
   ((\<forall>x a b. m = addReflection x a b \<longrightarrow> \<not> list_all isWhiteSpace x) \<longrightarrow>
      store (mutate m s) = store s \<and> saving (mutate m s) \<and>
      length (inflight (mutate m s)) = Suc (length (inflight s)))"
proof -
  have last: "(\<forall>x a b. m = addReflection x a b \<longrightarrow> \<not> list_all isWhiteSpace x) \<longrightarrow>
      store (mutate m s) = store s \<and> saving (mutate m s) \<and>
      length (inflight (mutate m s)) = Suc (length (inflight s))"
    using assms
    by (cases m) (auto simp add: handler_defs Let_def persistProfile_signed_in trim_empty_iff)
  show ?thesis
    using assms last
    by (simp add: handler_defs Let_def persistProfile_signed_in newEntry_def nullish_def
        trim_empty_iff)
qed

theorem mutation_applies_then_writes_witness:
  "firebaseReady ((initial True)\<lparr>user := Some (str ''u1'')\<rparr>) \<and>
   user ((initial True)\<lparr>user := Some (str ''u1'')\<rparr>) = Some (str ''u1'') \<and>
   profile (mutate (setReminderFrequency 2) ((initial True)\<lparr>user := Some (str ''u1'')\<rparr>)) =
     \<lparr>pregnancyWeek = 4, symptoms = [], reminderFrequencyWeeks = 2, customNotes = [],
      reflections = Some []\<rparr> \<and>
   inflight (mutate (setReminderFrequency 2) ((initial True)\<lparr>user := Some (str ''u1'')\<rparr>)) =
     [Persist (str ''u1'')
        (no_fields\<lparr>doc_reminderFrequencyWeeks := Some 2,
                    doc_updatedAt := Some serverTimestamp\<rparr>)] \<and>
   saving (mutate (setReminderFrequency 2) ((initial True)\<lparr>user := Some (str ''u1'')\<rparr>)) \<and>
   \<not> list_all isWhiteSpace (str ''ok'') \<and>
   inflight (mutate (addReflection (str ''ok'') (str ''id1'') (str ''t1''))
       ((initial True)\<lparr>user := Some (str ''u1'')\<rparr>)) =
     [Persist (str ''u1'')
        (no_fields\<lparr>doc_reflections :=
           Some [\<lparr>rid = str ''id1'', rtext = str ''ok'', timestamp = str ''t1''\<rparr>],
           doc_updatedAt := Some serverTimestamp\<rparr>)]"
proof -
  let ?s = "(initial True)\<lparr>user := Some (str ''u1'')\<rparr>"
  have h1: "firebaseReady ?s" by (simp add: initial_def)
  have h2: "user ?s = Some (str ''u1'')" by simp
  show ?thesis
    using h1 not_blank_example
      mutation_applies_then_writes [OF h1 h2,
        of _ _ _ _ "str ''id1''" "str ''t1''" 2 "str ''ok''" "setReminderFrequency 2"]
    by (simp add: initial_def defaultProfile_def)
qed

text \<open>
  The scenario of the spec: on a synced session \<open>setReminderFrequency\<close> shows the new
  value at once and the session is saving; when the write resolves at server time \<open>t\<close>
  the session is synced again and the remote document has the new value and the
  update time stamp merged into the fields it had.
\<close>

lemma setReminderFrequency_saving_then_synced:
  assumes "firebaseReady s" and "user s = Some uid" and "phase_of s = Synced"
  shows
  "reminderFrequencyWeeks (profile (mutate (setReminderFrequency w) s)) = w \<and>
   phase_of (mutate (setReminderFrequency w) s) = Saving \<and>
   phase_of (resolve (length (inflight s)) t (mutate (setReminderFrequency w) s)) = Synced \<and>
   store (resolve (length (inflight s)) t (mutate (setReminderFrequency w) s)) uid =
     Some ((case store s uid of None \<Rightarrow> no_fields | Some old \<Rightarrow> old)
       \<lparr>doc_reminderFrequencyWeeks := Some w, doc_updatedAt := Some (Timestamp t)\<rparr>) \<and>
   profile (resolve (length (inflight s)) t (mutate (setReminderFrequency w) s)) =
     (profile s)\<lparr>reminderFrequencyWeeks := w\<rparr>"
  using assms
  by (simp add: handleReminderChange_def persistProfile_signed_in phase_of_def resolve_def
      setDoc_merge_def merge_fields_def orElse_def stamp_def no_fields_def nth_append
      split: if_splits option.splits)

subsection \<open>The symptom log\<close>

lemma symptoms_addSymptomEntry:
  "symptoms (profile (mutate (addSymptomEntry kind sev note newId nowIso) s)) =
     take 20 (entry_of (kind, sev, note, newId, nowIso) # symptoms (profile s))"
  by (simp add: handleSymptomSubmit_def Let_def)

lemma take_append_take: "take n (ys @ take n xs) = take n (ys @ xs)"
  by (simp add: min_def)

lemma symptoms_addSymptomEntries:
  "cs \<noteq> [] \<Longrightarrow>
   symptoms (profile (addSymptomEntries cs s)) =
     take 20 (rev (map entry_of cs) @ symptoms (profile s))"
proof (induction cs arbitrary: s)
  case Nil
  then show ?case by simp
next
  case (Cons c cs)
  obtain kind sev nt newId nowIso where c: "c = (kind, sev, nt, newId, nowIso)"
    by (cases c) auto
  let ?s1 = "mutate (addSymptomEntry kind sev nt newId nowIso) s"
  have one: "symptoms (profile ?s1) = take 20 (entry_of c # symptoms (profile s))"
    unfolding c by (rule symptoms_addSymptomEntry)
  show ?case
  proof (cases "cs = []")
    case True
    then show ?thesis using one by (simp add: c del: mutate.simps entry_of.simps)
  next
    case False
    then have "symptoms (profile (addSymptomEntries cs ?s1)) =
        take 20 (rev (map entry_of cs) @ symptoms (profile ?s1))"
      by (rule Cons.IH)
    also have "\<dots> = take 20 (rev (map entry_of cs) @ entry_of c # symptoms (profile s))"
      unfolding one by (rule take_append_take)
    finally show ?thesis by (simp add: c del: mutate.simps entry_of.simps)
  qed
qed

text \<open>
  Claim C1. Each \<open>addSymptomEntry\<close> puts its new entry in front of the symptoms and
  keeps the first 20. Hence after any non-empty sequence of calls, from any state, the
  symptoms are the entries of the calls, latest call first, followed by the symptoms
  there were before, cut to 20: at most 20 long, with the entry of the last call at the
  head. From the initial state this holds for every sequence.
\<close>

theorem addSymptomEntry_bounded_recent_first:
  "symptoms (profile (mutate (addSymptomEntry kind sev note newId nowIso) s)) =
     take 20 (entry_of (kind, sev, note, newId, nowIso) # symptoms (profile s)) \<and>
   (cs \<noteq> [] \<longrightarrow>
      symptoms (profile (addSymptomEntries cs s)) =
        take 20 (rev (map entry_of cs) @ symptoms (profile s)) \<and>
      length (symptoms (profile (addSymptomEntries cs s))) \<le> 20 \<and>
      hd (symptoms (profile (addSymptomEntries cs s))) = entry_of (last cs)) \<and>
   symptoms (profile (addSymptomEntries cs (initial ready))) = take 20 (rev (map entry_of cs)) \<and>
   length (symptoms (profile (addSymptomEntries cs (initial ready)))) \<le> 20"
proof -
  have len: "length (take 20 xs) \<le> 20" for xs :: "SymptomEntry list"
    by simp
  have a: "cs \<noteq> [] \<Longrightarrow>
      hd (take 20 (rev (map entry_of cs) @ symptoms (profile s))) = entry_of (last cs)"
    by (cases cs rule: rev_cases) simp_all
  have b: "symptoms (profile (addSymptomEntries cs (initial ready))) =
      take 20 (rev (map entry_of cs))"
  proof (cases "cs = []")
    case True
    then show ?thesis by (simp add: initial_def defaultProfile_def)
  next
    case False
    then show ?thesis
      by (simp add: symptoms_addSymptomEntries initial_def defaultProfile_def)
  qed
  have c: "cs \<noteq> [] \<Longrightarrow> length (symptoms (profile (addSymptomEntries cs s))) \<le> 20"
  proof -
    assume "cs \<noteq> []"
    then have eq: "symptoms (profile (addSymptomEntries cs s)) =
        take 20 (rev (map entry_of cs) @ symptoms (profile s))"
      by (rule symptoms_addSymptomEntries)
    show ?thesis unfolding eq by (rule len)
  qed
  have d: "length (symptoms (profile (addSymptomEntries cs (initial ready)))) \<le> 20"
    unfolding b by (rule len)
  have e: "cs \<noteq> [] \<Longrightarrow>
      hd (symptoms (profile (addSymptomEntries cs s))) = entry_of (last cs)"
  proof -
    assume ne: "cs \<noteq> []"
    then have eq: "symptoms (profile (addSymptomEntries cs s)) =
        take 20 (rev (map entry_of cs) @ symptoms (profile s))"
      by (rule symptoms_addSymptomEntries)
    show ?thesis unfolding eq using ne by (rule a)
  qed
  show ?thesis
    using b c d e symptoms_addSymptomEntry symptoms_addSymptomEntries by blast
qed

theorem addSymptomEntry_bounded_recent_first_witness:
  "[(str ''nausea'', mild, [], str ''id1'', str ''t1''),
    (str ''cramps'', strong, str ''pm'', str ''id2'', str ''t2'')] \<noteq> [] \<and>
   symptoms (profile (addSymptomEntries
      [(str ''nausea'', mild, [], str ''id1'', str ''t1''),
       (str ''cramps'', strong, str ''pm'', str ''id2'', str ''t2'')] (initial True))) =
     [\<lparr>sid = str ''id2'', symptom = str ''cramps'', severity = strong, snotes = str ''pm'',
       loggedAt = str ''t2''\<rparr>,
      \<lparr>sid = str ''id1'', symptom = str ''nausea'', severity = mild,
       snotes = str ''No additional notes'', loggedAt = str ''t1''\<rparr>] \<and>
   [(str ''cramps'', strong, str ''pm'', str ''id2'', str ''t2'')] \<noteq> [] \<and>
   length (symptoms (profile (addSymptomEntries
      [(str ''cramps'', strong, str ''pm'', str ''id2'', str ''t2'')]
      ((initial True)\<lparr>profile := defaultProfile\<lparr>symptoms := replicate 20
         \<lparr>sid = str ''id1'', symptom = str ''nausea'', severity = mild,
          snotes = str ''No additional notes'', loggedAt = str ''t1''\<rparr>\<rparr>\<rparr>)))) = 20 \<and>
   hd (symptoms (profile (addSymptomEntries
      [(str ''cramps'', strong, str ''pm'', str ''id2'', str ''t2'')]
      ((initial True)\<lparr>profile := defaultProfile\<lparr>symptoms := replicate 20
         \<lparr>sid = str ''id1'', symptom = str ''nausea'', severity = mild,
          snotes = str ''No additional notes'', loggedAt = str ''t1''\<rparr>\<rparr>\<rparr>)))) =
     \<lparr>sid = str ''id2'', symptom = str ''cramps'', severity = strong, snotes = str ''pm'',
       loggedAt = str ''t2''\<rparr>"
  using addSymptomEntry_bounded_recent_first
      [where cs = "[(str ''nausea'', mild, [], str ''id1'', str ''t1''),
                    (str ''cramps'', strong, str ''pm'', str ''id2'', str ''t2'')]"
         and s = "initial True"]
    addSymptomEntry_bounded_recent_first
      [where cs = "[(str ''cramps'', strong, str ''pm'', str ''id2'', str ''t2'')]"
         and s = "(initial True)\<lparr>profile := defaultProfile\<lparr>symptoms := replicate 20
         \<lparr>sid = str ''id1'', symptom = str ''nausea'', severity = mild,
          snotes = str ''No additional notes'', loggedAt = str ''t1''\<rparr>\<rparr>\<rparr>"]
  by (simp add: initial_def defaultProfile_def newEntry_def str_def)

subsection \<open>First sign-in\<close>

text \<open>
  Claim C6. With Firebase configured, when a user signs in and the read of
  \<open>loadProfile\<close> finds no document for that user, \<open>loadProfile\<close> writes the document
  of the default profile: \<open>pregnancyWeek = 4\<close>, \<open>reminderFrequencyWeeks = 4\<close>, no
  symptoms, empty notes, no reflections, the user id and a creation time stamp. While
  the read and the write are in flight the session is loading; once the write has
  resolved the status message is cleared and the session is synced (when nothing else
  was in flight or being saved).
\<close>

theorem first_sign_in_initializes_defaults:
  assumes "firebaseReady s" and "store s uid = None"
  shows
  "inflight (authStateChanged (Some uid) s) = inflight s @ [LoadGet uid] \<and>
   phase_of (authStateChanged (Some uid) s) = Loading \<and>
   inflight (resolve (length (inflight s)) t1 (authStateChanged (Some uid) s)) =
     inflight s @ [LoadInit uid
       \<lparr>doc_pregnancyWeek = Some 4, doc_symptoms = Some [],
        doc_reminderFrequencyWeeks = Some 4, doc_customNotes = Some [],
        doc_reflections = Some [], doc_uid = Some uid,
        doc_createdAt = Some serverTimestamp, doc_updatedAt = None\<rparr>] \<and>
   phase_of (resolve (length (inflight s)) t1 (authStateChanged (Some uid) s)) = Loading \<and>
   store (resolve (length (inflight s)) t2
           (resolve (length (inflight s)) t1 (authStateChanged (Some uid) s))) uid =
     Some \<lparr>doc_pregnancyWeek = Some 4, doc_symptoms = Some [],
        doc_reminderFrequencyWeeks = Some 4, doc_customNotes = Some [],
        doc_reflections = Some [], doc_uid = Some uid,
        doc_createdAt = Some (Timestamp t2), doc_updatedAt = None\<rparr> \<and>
   statusMessage (resolve (length (inflight s)) t2
           (resolve (length (inflight s)) t1 (authStateChanged (Some uid) s))) = None \<and>
   (\<not> list_ex is_load (inflight s) \<and> \<not> saving s \<longrightarrow>
      phase_of (resolve (length (inflight s)) t2
           (resolve (length (inflight s)) t1 (authStateChanged (Some uid) s))) = Synced)"
  using assms
  by (simp add: authStateChanged_def loadProfile_def resolve_def phase_of_def spread_def
      defaultProfile_def setDoc_def stamp_def nth_append)

theorem first_sign_in_initializes_defaults_witness:
  "firebaseReady (initial True) \<and> store (initial True) (str ''u1'') = None \<and>
   \<not> list_ex is_load (inflight (initial True)) \<and> \<not> saving (initial True) \<and>
   store (resolve 0 8 (resolve 0 7 (authStateChanged (Some (str ''u1'')) (initial True))))
      (str ''u1'') =
     Some \<lparr>doc_pregnancyWeek = Some 4, doc_symptoms = Some [],
        doc_reminderFrequencyWeeks = Some 4, doc_customNotes = Some [],
        doc_reflections = Some [], doc_uid = Some (str ''u1''),
        doc_createdAt = Some (Timestamp 8), doc_updatedAt = None\<rparr> \<and>
   phase_of (resolve 0 8 (resolve 0 7 (authStateChanged (Some (str ''u1'')) (initial True))))
     = Synced"
proof -
  have h1: "firebaseReady (initial True)" by (simp add: initial_def)
  have h2: "store (initial True) (str ''u1'') = None" by (simp add: initial_def)
  have h3: "inflight (initial True) = []" by (simp add: initial_def)
  have h4: "\<not> saving (initial True)" by (simp add: initial_def)
  show ?thesis
    using h1 h2 h4 first_sign_in_initializes_defaults [OF h1 h2, of 7 8]
    by (simp add: h3)
qed

subsection \<open>Completion percentage\<close>


















text \<open>
  The roundings show at week 23: \<open>23 / 40\<close> rounds to a number below 0.575, the
  product to 57.49999999999999, and the percentage is 57, where the same expression
  with exact arithmetic gives 58. Monotonicity is not affected: week 22 gives 55 and
  week 24 gives 60.
\<close>

lemma pregnancyProgress_week_23:
  "pregnancyProgress (defaultProfile\<lparr>pregnancyWeek := 22\<rparr>) = 55 \<and>
   pregnancyProgress (defaultProfile\<lparr>pregnancyWeek := 23\<rparr>) = 57 \<and>
   pregnancyProgress (defaultProfile\<lparr>pregnancyWeek := 24\<rparr>) = 60 \<and>
   exactProgress 23 = 58"
  by code_simp

end
